theory Spec2Isabelle
  imports Complex_Main
begin

section \<open>Texts\<close>

text \<open>
  Python strings are modelled as \<^typ>\<open>string\<close>, restricted to ASCII texts: the character
  classes below (digits, letters, white space, word characters) and \<open>lower\<close> are the
  ASCII parts of Python's \<open>str.isdigit\<close>, \<open>str.isspace\<close>, the \<open>re\<close> classes
  \<open>\d\<close>, \<open>\s\<close>, \<open>\w\<close> and \<open>str.lower\<close>.
\<close>

definition is_digit :: "char \<Rightarrow> bool" where
  "is_digit c = (c \<in> set ''0123456789'')"

definition is_lower :: "char \<Rightarrow> bool" where
  "is_lower c = (c \<in> set ''abcdefghijklmnopqrstuvwxyz'')"

definition is_upper :: "char \<Rightarrow> bool" where
  "is_upper c = (c \<in> set ''ABCDEFGHIJKLMNOPQRSTUVWXYZ'')"

definition is_alpha :: "char \<Rightarrow> bool" where
  "is_alpha c = (is_lower c \<or> is_upper c)"

definition is_word :: "char \<Rightarrow> bool" where
  "is_word c = (is_alpha c \<or> is_digit c \<or> c = CHR ''_'')"

definition is_space :: "char \<Rightarrow> bool" where
  "is_space c = (c \<in> set [CHR '' '', CHR 0x09, CHR 0x0A, CHR 0x0B, CHR 0x0C, CHR 0x0D,
                            CHR 0x1C, CHR 0x1D, CHR 0x1E, CHR 0x1F])"

text \<open>\<open>str.lower\<close> on one character: the letter at the same place of the lower-case alphabet.\<close>

fun lower_in :: "string \<Rightarrow> string \<Rightarrow> char \<Rightarrow> char" where
  "lower_in (u # us) (l # ls) c = (if c = u then l else lower_in us ls c)"
| "lower_in _ _ c = c"

definition lower_char :: "char \<Rightarrow> char" where
  "lower_char c = lower_in ''ABCDEFGHIJKLMNOPQRSTUVWXYZ'' ''abcdefghijklmnopqrstuvwxyz'' c"

definition lower :: "string \<Rightarrow> string" where
  "lower s = map lower_char s"

text \<open>\<open>s.startswith(p)\<close> and the substring test \<open>sub in s\<close>.\<close>

fun startswith :: "string \<Rightarrow> string \<Rightarrow> bool" where
  "startswith s [] = True"
| "startswith [] (p # ps) = False"
| "startswith (c # cs) (p # ps) = (c = p \<and> startswith cs ps)"

fun str_in :: "string \<Rightarrow> string \<Rightarrow> bool" where
  "str_in sub [] = (sub = [])"
| "str_in sub (c # cs) = (startswith (c # cs) sub \<or> str_in sub cs)"

text \<open>\<open>any(k in s for k in ks)\<close> and \<open>sum(1 for k in ks if k in s)\<close>.\<close>

definition any_in :: "string list \<Rightarrow> string \<Rightarrow> bool" where
  "any_in ks s = list_ex (\<lambda>k. str_in k s) ks"

definition count_in :: "string list \<Rightarrow> string \<Rightarrow> nat" where
  "count_in ks s = length (filter (\<lambda>k. str_in k s) ks)"

text \<open>\<open>s.strip()\<close>, \<open>sep.join(xs)\<close>, \<open>s.split(c)[-1]\<close>, \<open>s.split()\<close> and
  \<open>re.sub(r'\D', '', s)\<close>.\<close>

definition strip :: "string \<Rightarrow> string" where
  "strip s = rev (dropWhile is_space (rev (dropWhile is_space s)))"

fun join :: "string \<Rightarrow> string list \<Rightarrow> string" where
  "join sep [] = []"
| "join sep [x] = x"
| "join sep (x # y # ys) = x @ sep @ join sep (y # ys)"

definition after_last :: "char \<Rightarrow> string \<Rightarrow> string" where
  "after_last c s = rev (takeWhile (\<lambda>d. d \<noteq> c) (rev s))"

function split_ws :: "string \<Rightarrow> string list" where
  "split_ws s =
     (let t = dropWhile is_space s
      in if t = [] then []
         else takeWhile (\<lambda>c. \<not> is_space c) t # split_ws (dropWhile (\<lambda>c. \<not> is_space c) t))"
  by pat_completeness auto
termination
proof (relation "measure length")
  show "wf (measure length)" by simp
next
  fix s t :: string
  assume t: "t = dropWhile is_space s" and ne: "t \<noteq> []"
  from ne obtain c cs where tc: "t = c # cs" by (cases t) auto
  from t ne have "\<not> is_space (hd t)" by (simp add: hd_dropWhile)
  then have "\<not> is_space c" by (simp add: tc)
  then have "length (dropWhile (\<lambda>c. \<not> is_space c) t) \<le> length cs"
    by (simp add: tc length_dropWhile_le)
  moreover have "length t \<le> length s" by (simp add: t length_dropWhile_le)
  ultimately show "(dropWhile (\<lambda>c. \<not> is_space c) t, s) \<in> measure length"
    by (simp add: tc)
qed

definition only_digits :: "string \<Rightarrow> string" where
  "only_digits s = filter is_digit s"

section \<open>Pattern scans\<close>

text \<open>
  The patterns of the source use only character classes under the greedy quantifiers
  (\<open>?\<close>, \<open>+\<close>, \<open>*\<close>, \<open>{m,n}\<close>), the word boundary \<open>\b\<close> and a top-level
  alternation. An \<open>item\<close> is one quantified class or a boundary, a sequence is a list of
  items and a pattern a list of alternative sequences. Matching follows the backtracking
  order of Python's \<open>re\<close>: a quantifier first takes as many characters as it can and gives
  them back one at a time; alternatives are tried from left to right.
\<close>

datatype item = Rep "char \<Rightarrow> bool" nat "nat option" | Bnd

type_synonym pattern = "item list list"

fun first_some :: "(nat \<Rightarrow> 'a option) \<Rightarrow> nat list \<Rightarrow> 'a option" where
  "first_some f [] = None"
| "first_some f (k # ks) = (case f k of Some r \<Rightarrow> Some r | None \<Rightarrow> first_some f ks)"

definition word_opt :: "char option \<Rightarrow> bool" where
  "word_opt p = (case p of None \<Rightarrow> False | Some c \<Rightarrow> is_word c)"

definition at_boundary :: "char option \<Rightarrow> string \<Rightarrow> bool" where
  "at_boundary prev s = (word_opt prev \<noteq> word_opt (case s of [] \<Rightarrow> None | c # _ \<Rightarrow> Some c))"

definition prev_after :: "char option \<Rightarrow> string \<Rightarrow> nat \<Rightarrow> char option" where
  "prev_after prev s k = (if k = 0 then prev else Some (s ! (k - 1)))"

text \<open>
  \<open>match_seq is prev s\<close>: the text left after the first (in backtracking order) match of
  the sequence at the start of \<open>s\<close>, where \<open>prev\<close> is the character before \<open>s\<close>.
  In \<open>prev_after\<close> the index \<open>k - 1\<close> is below the number of characters taken.
\<close>

primrec match_seq :: "item list \<Rightarrow> char option \<Rightarrow> string \<Rightarrow> string option" where
  "match_seq [] prev s = Some s"
| "match_seq (i # is) prev s =
     (case i of
        Bnd \<Rightarrow> if at_boundary prev s then match_seq is prev s else None
      | Rep cls lo hi \<Rightarrow>
          (let n = length (takeWhile cls (case hi of None \<Rightarrow> s | Some h \<Rightarrow> take h s))
           in first_some (\<lambda>k. match_seq is (prev_after prev s k) (drop k s)) (rev [lo..<Suc n])))"

fun match_pat :: "pattern \<Rightarrow> char option \<Rightarrow> string \<Rightarrow> string option" where
  "match_pat [] prev s = None"
| "match_pat (alt # alts) prev s =
     (case match_seq alt prev s of Some r \<Rightarrow> Some r | None \<Rightarrow> match_pat alts prev s)"

text \<open>
  \<open>re.findall\<close>: scan from left to right, take the match at the first position that has
  one, go on after it. (A match of the empty string is recorded and the scan moves one
  character on; none of the patterns below matches the empty string.)
\<close>

function findall_from :: "pattern \<Rightarrow> char option \<Rightarrow> string \<Rightarrow> string list" where
  "findall_from pat prev s =
     (case match_pat pat prev s of
        None \<Rightarrow> (case s of [] \<Rightarrow> [] | c # cs \<Rightarrow> findall_from pat (Some c) cs)
      | Some r \<Rightarrow>
          (let m = take (length s - length r) s
           in if m \<noteq> [] then m # findall_from pat (Some (last m)) r
              else (case s of [] \<Rightarrow> [[]] | c # cs \<Rightarrow> [] # findall_from pat (Some c) cs)))"
  by pat_completeness auto
termination
  by (relation "measure (\<lambda>(pat, prev, s). length s)") auto

definition findall :: "pattern \<Rightarrow> string \<Rightarrow> string list" where
  "findall pat s = findall_from pat None s"

definition re_search :: "pattern \<Rightarrow> string \<Rightarrow> bool" where
  "re_search pat s = (findall pat s \<noteq> [])"

text \<open>Building blocks: one character, an optional class, one or more, any number.\<close>

definition once :: "(char \<Rightarrow> bool) \<Rightarrow> item" where "once cls = Rep cls 1 (Some 1)"
definition opt :: "(char \<Rightarrow> bool) \<Rightarrow> item" where "opt cls = Rep cls 0 (Some 1)"
definition many1 :: "(char \<Rightarrow> bool) \<Rightarrow> item" where "many1 cls = Rep cls 1 None"
definition many0 :: "(char \<Rightarrow> bool) \<Rightarrow> item" where "many0 cls = Rep cls 0 None"

definition chr :: "char \<Rightarrow> item" where "chr c = once (\<lambda>d. d = c)"

text \<open>A literal letter under \<open>re.IGNORECASE\<close>.\<close>
definition chr_i :: "char \<Rightarrow> item" where "chr_i c = once (\<lambda>d. lower_char d = c)"

definition is_sep :: "char \<Rightarrow> bool" where
  "is_sep c = (c = CHR ''-'' \<or> c = CHR ''.'' \<or> is_space c)"

definition not_space :: "char \<Rightarrow> bool" where
  "not_space c = (\<not> is_space c)"

text \<open>The patterns of \<open>IntelligenceExtractor.__init__\<close> that \<open>extract\<close> scans with.
  \<open>upi\<close> and \<open>url\<close> are used with \<open>re.IGNORECASE\<close>. (The source also declares
  an \<open>amount\<close> pattern; \<open>extract\<close> never scans with it.)\<close>

definition pat_upi :: pattern where
  "pat_upi = [[Bnd, many1 (\<lambda>c. is_word c \<or> c = CHR ''.'' \<or> c = CHR ''-''), chr (CHR ''@''),
               many1 is_word, Bnd]]"

definition pat_phone :: pattern where
  "pat_phone = [[opt (\<lambda>c. c = CHR ''+''), Rep is_digit 1 (Some 3), opt is_sep,
                 opt (\<lambda>c. c = CHR ''(''), Rep is_digit 1 (Some 4), opt (\<lambda>c. c = CHR '')''),
                 opt is_sep, Rep is_digit 1 (Some 4), opt is_sep, Rep is_digit 1 (Some 9)]]"

definition pat_account :: pattern where
  "pat_account = [[Bnd, Rep is_digit 9 (Some 18), Bnd]]"

definition pat_url :: pattern where
  "pat_url =
     [[chr_i (CHR ''h''), chr_i (CHR ''t''), chr_i (CHR ''t''), chr_i (CHR ''p''),
       opt (\<lambda>d. lower_char d = CHR ''s''), chr (CHR '':''), chr (CHR ''/''), chr (CHR ''/''),
       many1 not_space],
      [chr_i (CHR ''w''), chr_i (CHR ''w''), chr_i (CHR ''w''), chr (CHR ''.''), many1 not_space],
      [many1 (\<lambda>c. is_alpha c \<or> is_digit c \<or> c = CHR ''-''), chr (CHR ''.''),
       Rep is_alpha 2 None, many0 not_space]]"

definition pat_ifsc :: pattern where
  "pat_ifsc = [[Bnd, Rep is_upper 4 (Some 4), chr (CHR ''0''),
                Rep (\<lambda>c. is_upper c \<or> is_digit c) 6 (Some 6), Bnd]]"

section \<open>Intelligence extractor: validators\<close>

text \<open>
  \<open>_clean_and_validate_phones\<close>: the loop appends one formatted number for each
  candidate with 10 to 15 digits. The accumulator is the list \<open>valid_phones\<close>.
\<close>

definition format_phone :: "string \<Rightarrow> string" where
  "format_phone digits =
     (if startswith digits ''91'' \<and> length digits = 12 then ''+91'' @ drop 2 digits
      else if startswith digits ''0'' \<and> length digits = 11 then ''+91'' @ drop 1 digits
      else if length digits = 10 then ''+91'' @ digits
      else ''+'' @ digits)"

fun phones_loop :: "string list \<Rightarrow> string list \<Rightarrow> string list" where
  "phones_loop valid_phones [] = valid_phones"
| "phones_loop valid_phones (phone # rest) =
     (let digits = only_digits phone
      in if 10 \<le> length digits \<and> length digits \<le> 15
         then phones_loop (valid_phones @ [format_phone digits]) rest
         else phones_loop valid_phones rest)"

definition clean_and_validate_phones :: "string list \<Rightarrow> string list" where
  "clean_and_validate_phones phone_matches = phones_loop [] phone_matches"

text \<open>
  \<open>_clean_and_validate_accounts\<close>: \<open>clean[:4]\<close> is \<open>take 4\<close>, \<open>clean[-4:]\<close> the last
  four characters, \<open>'*' * n\<close> is \<open>replicate n\<close> (empty for \<open>n \<le> 0\<close>; the lengths are
  integers in the source, and the subtraction is never negative where it is used).
\<close>

definition last_n :: "nat \<Rightarrow> 'a list \<Rightarrow> 'a list" where
  "last_n n s = drop (length s - n) s"

definition mask_account :: "string \<Rightarrow> string" where
  "mask_account clean =
     (if length clean > 8
      then take 4 clean @ replicate (length clean - 8) (CHR ''*'') @ last_n 4 clean
      else take 4 clean @ replicate (length clean - 4) (CHR ''*''))"

fun accounts_loop :: "string list \<Rightarrow> string list \<Rightarrow> string list" where
  "accounts_loop valid_accounts [] = valid_accounts"
| "accounts_loop valid_accounts (account # rest) =
     (let clean = only_digits account
      in if 9 \<le> length clean \<and> length clean \<le> 18
         then accounts_loop (valid_accounts @ [mask_account clean]) rest
         else accounts_loop valid_accounts rest)"

definition clean_and_validate_accounts :: "string list \<Rightarrow> string list" where
  "clean_and_validate_accounts account_matches = accounts_loop [] account_matches"

text \<open>
  \<open>_clean_and_validate_upi\<close>. \<open>upi.split('@')[-1]\<close> is the text after the last
  \<open>@\<close>.
\<close>

definition valid_providers :: "string list" where
  "valid_providers = [''paytm'', ''phonepe'', ''googlepay'', ''ybl'', ''okaxis'',
                      ''oksbi'', ''okicici'', ''okhdfc'', ''upi'', ''apl'', ''axl'']"

fun upi_loop :: "string list \<Rightarrow> string list \<Rightarrow> string list" where
  "upi_loop valid_upis [] = valid_upis"
| "upi_loop valid_upis (u # rest) =
     (let upi = strip u
      in if CHR ''@'' \<in> set upi \<and> length upi > 5
         then (let provider = lower (after_last (CHR ''@'') upi)
               in if any_in valid_providers provider \<or> length provider \<le> 10
                  then upi_loop (valid_upis @ [upi]) rest
                  else upi_loop valid_upis rest)
         else upi_loop valid_upis rest)"

definition clean_and_validate_upi :: "string list \<Rightarrow> string list" where
  "clean_and_validate_upi upi_matches = upi_loop [] upi_matches"

text \<open>
  \<open>_clean_and_validate_urls\<close>. \<open>re.sub(r'[.,;!?]+$', '', url)\<close> on a stripped text
  removes the run of punctuation at its end. Both branches of the inner \<open>if\<close> of the
  source prepend \<open>http://\<close>.
\<close>

definition is_trailing_punct :: "char \<Rightarrow> bool" where
  "is_trailing_punct c = (c \<in> set ''.,;!?'')"

definition strip_trailing_punct :: "string \<Rightarrow> string" where
  "strip_trailing_punct s = rev (dropWhile is_trailing_punct (rev s))"

fun urls_loop :: "string list \<Rightarrow> string list \<Rightarrow> string list" where
  "urls_loop valid_urls [] = valid_urls"
| "urls_loop valid_urls (u # rest) =
     (let url = strip_trailing_punct (strip u);
          url = (if \<not> (startswith url ''http://'' \<or> startswith url ''https://'')
                 then (if startswith url ''www.'' then ''http://'' @ url else ''http://'' @ url)
                 else url)
      in if CHR ''.'' \<in> set url \<and> length url > 5
         then urls_loop (valid_urls @ [url]) rest
         else urls_loop valid_urls rest)"

definition clean_and_validate_urls :: "string list \<Rightarrow> string list" where
  "clean_and_validate_urls url_matches = urls_loop [] url_matches"

section \<open>Intelligence extractor: \<open>extract\<close>\<close>

record message =
  msg_sender :: string
  msg_text :: string
  msg_timestamp :: string

text \<open>
  The intelligence dictionary: a map from the five keys to lists of strings.
  \<open>list(set(xs))\<close> returns the distinct elements of \<open>xs\<close> in an order Python does
  not specify; the model takes this enumeration as a parameter \<open>list_set\<close>, and
  \<open>set_listing\<close> says what Python guarantees about it.
\<close>

type_synonym intel = "string \<rightharpoonup> string list"

definition set_listing :: "(string list \<Rightarrow> string list) \<Rightarrow> bool" where
  "set_listing list_set = (\<forall>xs. distinct (list_set xs) \<and> set (list_set xs) = set xs)"

definition intel_keys :: "string list" where
  "intel_keys = [''bankAccounts'', ''upiIds'', ''phishingLinks'', ''phoneNumbers'',
                 ''suspiciousKeywords'']"

definition empty_intel :: intel where
  "empty_intel = [''bankAccounts'' \<mapsto> [], ''upiIds'' \<mapsto> [], ''phishingLinks'' \<mapsto> [],
                  ''phoneNumbers'' \<mapsto> [], ''suspiciousKeywords'' \<mapsto> []]"

text \<open>\<open>d.get(key, [])\<close>.\<close>

definition get_list :: "intel \<Rightarrow> string \<Rightarrow> string list" where
  "get_list d key = (case d key of None \<Rightarrow> [] | Some v \<Rightarrow> v)"

definition suspicious_keywords :: "string list" where
  "suspicious_keywords =
     [''urgent'', ''immediate'', ''verify'', ''confirm'', ''blocked'', ''suspended'',
      ''expire'', ''deadline'', ''penalty'', ''fine'', ''arrest'', ''legal action'',
      ''click here'', ''download'', ''install'', ''otp'', ''cvv'', ''pin'',
      ''password'', ''account number'', ''card details'', ''transfer money'',
      ''refund'', ''cashback'', ''prize'', ''lottery'', ''winner'', ''reward'',
      ''tax refund'', ''government'', ''bank official'', ''customer care'']"

text \<open>\<open>app.replace(' ', '_')\<close>.\<close>

definition underscored :: "string \<Rightarrow> string" where
  "underscored s = map (\<lambda>c. if c = CHR '' '' then CHR ''_'' else c) s"

definition payment_apps :: "string list" where
  "payment_apps = [''paytm'', ''phonepe'', ''google pay'', ''gpay'', ''bhim'', ''whatsapp pay'']"

definition impersonation_targets :: "string list" where
  "impersonation_targets = [''bank'', ''police'', ''income tax'', ''government'',
     ''customer care'', ''security team'', ''fraud department'', ''cyber cell'']"

text \<open>
  \<open>_extract_contextual_intelligence\<close>: the tags, in the order the source extends the
  list, and the dictionary it returns, which has all five keys.
\<close>

definition contextual_tags :: "string \<Rightarrow> string list" where
  "contextual_tags text_lower =
     (if any_in [''tax refund'', ''income tax'', ''refund pending''] text_lower
      then [''tax_refund_scam'', ''government_impersonation''] else []) @
     (if any_in [''won prize'', ''lottery'', ''winner'', ''congratulations''] text_lower
      then [''lottery_scam'', ''prize_scam''] else []) @
     (if any_in [''account blocked'', ''account suspended'', ''kyc pending''] text_lower
      then [''account_block_scam'', ''bank_impersonation''] else []) @
     (if any_in [''share otp'', ''tell otp'', ''send otp''] text_lower
      then [''otp_fraud'', ''credential_theft''] else []) @
     (if any_in [''click link'', ''open link'', ''visit website''] text_lower
      then [''phishing_attempt'', ''malicious_link''] else []) @
     (if any_in [''transfer to'', ''send money to'', ''pay to''] text_lower
      then [''payment_redirection'', ''money_transfer_scam''] else []) @
     map (\<lambda>app. ''uses_'' @ underscored app)
       (filter (\<lambda>app. str_in app text_lower) payment_apps) @
     map (\<lambda>target. ''impersonates_'' @ underscored target)
       (filter (\<lambda>target. str_in target text_lower) impersonation_targets)"

definition extract_contextual_intelligence :: "string \<Rightarrow> intel" where
  "extract_contextual_intelligence txt =
     [''bankAccounts'' \<mapsto> [], ''upiIds'' \<mapsto> [], ''phishingLinks'' \<mapsto> [],
      ''phoneNumbers'' \<mapsto> [], ''suspiciousKeywords'' \<mapsto> contextual_tags (lower txt)]"

text \<open>
  \<open>extract\<close> (named \<open>extract_intelligence\<close> here). \<open>all_text\<close> joins the counterpart's messages and the latest message.
  \<open>intelligence.update(d)\<close> is the map override \<open>intelligence ++ d\<close>: every key of
  \<open>d\<close> takes \<open>d\<close>'s value. The last loop replaces every value by
  \<open>list(set(value))\<close>.
\<close>

definition all_text_of :: "message list \<Rightarrow> string \<Rightarrow> string" where
  "all_text_of conversation latest_message =
     join '' '' (map msg_text (filter (\<lambda>msg. msg_sender msg = ''scammer'') conversation))
       @ '' '' @ latest_message"

definition scanned_intelligence :: "(string list \<Rightarrow> string list) \<Rightarrow> string \<Rightarrow> intel" where
  "scanned_intelligence list_set all_text =
     (let intelligence = empty_intel;
          intelligence = intelligence(''upiIds'' \<mapsto>
                           clean_and_validate_upi (findall pat_upi all_text));
          intelligence = intelligence(''phoneNumbers'' \<mapsto>
                           clean_and_validate_phones (findall pat_phone all_text));
          intelligence = intelligence(''bankAccounts'' \<mapsto>
                           clean_and_validate_accounts (findall pat_account all_text));
          intelligence = intelligence(''phishingLinks'' \<mapsto>
                           clean_and_validate_urls (findall pat_url all_text));
          intelligence = intelligence(''bankAccounts'' \<mapsto>
                           get_list intelligence ''bankAccounts''
                             @ map (\<lambda>ifsc. ''IFSC:'' @ ifsc) (findall pat_ifsc all_text));
          found_keywords = filter (\<lambda>kw. str_in kw (lower all_text)) suspicious_keywords
      in intelligence(''suspiciousKeywords'' \<mapsto> list_set found_keywords))"

definition extract_intelligence :: "(string list \<Rightarrow> string list) \<Rightarrow> message list \<Rightarrow> string \<Rightarrow> intel" where
  "extract_intelligence list_set conversation latest_message =
     (let all_text = all_text_of conversation latest_message;
          intelligence = scanned_intelligence list_set all_text;
          intelligence = intelligence ++ extract_contextual_intelligence all_text
      in (\<lambda>key. map_option list_set (intelligence key)))"

section \<open>Scam detector\<close>

text \<open>
  The weights and caps of the source are decimal constants with two places; the score is
  computed here with exact rationals. \<open>round(x, 2)\<close> is \<open>py_round2\<close>, rounding half to
  even. The comparison \<open>capitalized > len(words) * 0.7\<close> of \<open>_has_poor_grammar\<close> is
  made on exact rationals too. The \<open>metadata\<close> argument of \<open>analyze\<close> is never read.
\<close>

record classification =
  is_scam :: bool
  confidence :: rat
  indicators :: "string list"
  cls_notes :: string

definition urgency_keywords :: "string list" where
  "urgency_keywords =
     [''urgent'', ''immediately'', ''right now'', ''expire'', ''expires'', ''expired'',
      ''today only'', ''limited time'', ''act now'', ''hurry'', ''quick'', ''deadline'',
      ''suspend'', ''suspended'', ''blocked'', ''block'', ''freeze'', ''frozen'']"

definition threat_keywords :: "string list" where
  "threat_keywords =
     [''account blocked'', ''account suspended'', ''legal action'', ''arrest'',
      ''police'', ''law enforcement'', ''penalty'', ''fine'', ''criminal'',
      ''lawsuit'', ''court'', ''jail'', ''prison'', ''warrant'']"

definition request_keywords :: "string list" where
  "request_keywords =
     [''verify'', ''confirm'', ''update'', ''share'', ''send'', ''provide'',
      ''click here'', ''link'', ''download'', ''install'', ''open attachment'',
      ''enter password'', ''enter pin'', ''enter otp'', ''card details'',
      ''cvv'', ''expire date'']"

definition financial_keywords :: "string list" where
  "financial_keywords =
     [''bank account'', ''credit card'', ''debit card'', ''upi'', ''paytm'',
      ''phone pe'', ''google pay'', ''net banking'', ''ifsc'', ''account number'',
      ''cvv'', ''pin'', ''password'', ''otp'', ''transfer money'', ''refund'',
      ''cashback'', ''reward'', ''prize'', ''won'', ''lottery'', ''winner'']"

definition impersonation_keywords :: "string list" where
  "impersonation_keywords =
     [''we are from'', ''calling from'', ''representative'', ''customer care'',
      ''support team'', ''security team'', ''fraud department'', ''bank official'',
      ''government'', ''tax department'', ''income tax'', ''rbi'', ''sebi'']"

text \<open>The detector's \<open>url\<close> pattern (no flags) and the pattern \<open>[!?]{2,}\<close>.\<close>

definition pat_link :: pattern where
  "pat_link =
     [[chr (CHR ''h''), chr (CHR ''t''), chr (CHR ''t''), chr (CHR ''p''),
       opt (\<lambda>d. d = CHR ''s''), chr (CHR '':''), chr (CHR ''/''), chr (CHR ''/''),
       many1 not_space],
      [chr (CHR ''w''), chr (CHR ''w''), chr (CHR ''w''), chr (CHR ''.''), many1 not_space]]"

definition pat_multi_punct :: pattern where
  "pat_multi_punct = [[Rep (\<lambda>c. c = CHR ''!'' \<or> c = CHR ''?'') 2 None]]"

text \<open>\<open>str.isupper\<close>: some cased character, and no lower-case one.\<close>

definition isupper :: "string \<Rightarrow> bool" where
  "isupper s = (list_ex is_upper s \<and> \<not> list_ex is_lower s)"

definition has_poor_grammar :: "string \<Rightarrow> bool" where
  "has_poor_grammar message =
     (if re_search pat_multi_punct message then True
      else if length message > 10 \<and> isupper message then True
      else (let words = split_ws message
            in if length words > 5
               then (let capitalized =
                           length (filter (\<lambda>word. case word of [] \<Rightarrow> False
                                                      | c # _ \<Rightarrow> is_upper c) words)
                     in if (of_nat capitalized :: rat) > of_nat (length words) * (7 / 10)
                        then True else False)
               else False))"

definition generate_notes :: "string list \<Rightarrow> rat \<Rightarrow> string" where
  "generate_notes inds conf =
     (if inds = [] then ''No significant scam indicators detected''
      else join ''; ''
        ((if ''urgency_tactics'' \<in> set inds then [''Uses urgency to pressure victim''] else []) @
         (if ''threatening_language'' \<in> set inds
          then [''Employs threats or intimidation''] else []) @
         (if ''suspicious_requests'' \<in> set inds then [''Requests sensitive actions''] else []) @
         (if ''financial_focus'' \<in> set inds
          then [''Focuses on financial information''] else []) @
         (if ''impersonation_attempt'' \<in> set inds
          then [''Attempts to impersonate authority''] else []) @
         (if ''contains_links'' \<in> set inds
          then [''Contains potentially malicious links''] else []) @
         (if ''requests_sensitive_data'' \<in> set inds
          then [''Directly requests sensitive data (OTP/PIN/CVV)''] else []) @
         (if ''unsolicited_contact'' \<in> set inds
          then [''Unsolicited contact from unknown source''] else []) @
         (if ''poor_grammar'' \<in> set inds then [''Exhibits poor grammar/formatting''] else [])))"

definition py_round2 :: "rat \<Rightarrow> rat" where
  "py_round2 x =
     (let y = x * 100; f = \<lfloor>y\<rfloor>; d = y - of_int f
      in of_int (if d < 1 / 2 then f else if d > 1 / 2 then f + 1
                 else if even f then f else f + 1) / 100)"

text \<open>
  One check of \<open>analyze\<close>: when the condition holds, the indicator is appended and the
  score grows. The state is the pair \<open>(indicators, confidence_score)\<close>.
\<close>

definition add_indicator ::
  "bool \<Rightarrow> string \<Rightarrow> rat \<Rightarrow> string list \<times> rat \<Rightarrow> string list \<times> rat" where
  "add_indicator cond name inc st = (if cond then (fst st @ [name], snd st + inc) else st)"

definition analysis :: "string \<Rightarrow> string list \<Rightarrow> string list \<times> rat" where
  "analysis message conversation_history =
     (let message_lower = lower message;
          st = ([], 0);
          urgency_count = count_in urgency_keywords message_lower;
          st = add_indicator (urgency_count > 0) ''urgency_tactics''
                 (min (of_nat urgency_count * (15 / 100)) (3 / 10)) st;
          threat_count = count_in threat_keywords message_lower;
          st = add_indicator (threat_count > 0) ''threatening_language''
                 (min (of_nat threat_count * (2 / 10)) (4 / 10)) st;
          request_count = count_in request_keywords message_lower;
          st = add_indicator (request_count > 0) ''suspicious_requests''
                 (min (of_nat request_count * (1 / 10)) (25 / 100)) st;
          financial_count = count_in financial_keywords message_lower;
          st = add_indicator (financial_count > 0) ''financial_focus''
                 (min (of_nat financial_count * (12 / 100)) (3 / 10)) st;
          impersonation_count = count_in impersonation_keywords message_lower;
          st = add_indicator (impersonation_count > 0) ''impersonation_attempt''
                 (min (of_nat impersonation_count * (15 / 100)) (35 / 100)) st;
          st = add_indicator (re_search pat_link message) ''contains_links'' (25 / 100) st;
          st = add_indicator
                 (any_in [''otp'', ''cvv'', ''pin'', ''password'', ''card number''] message_lower)
                 ''requests_sensitive_data'' (35 / 100) st;
          st = add_indicator
                 (length conversation_history = 0 \<and>
                  any_in [''we are from'', ''calling from'', ''this is''] message_lower)
                 ''unsolicited_contact'' (2 / 10) st;
          st = add_indicator (has_poor_grammar message) ''poor_grammar'' (1 / 10) st
      in st)"

definition analyze :: "string \<Rightarrow> string list \<Rightarrow> (string \<rightharpoonup> string) \<Rightarrow> classification" where
  "analyze message conversation_history metadata =
     (let st = analysis message conversation_history;
          inds = fst st;
          confidence_score = min (snd st) 1;
          scam = (confidence_score \<ge> 1 / 2 \<or> length inds \<ge> 3)
      in \<lparr>is_scam = scam, confidence = py_round2 confidence_score, indicators = inds,
          cls_notes = generate_notes inds confidence_score\<rparr>)"

section \<open>Sessions\<close>

record session =
  messages :: "message list"
  scam_detected :: bool
  confidence_score :: rat
  intelligence :: intel
  agent_notes :: "string list"
  created_at :: string

type_synonym sessions = "string \<rightharpoonup> session"

section \<open>Engagement agent\<close>

text \<open>
  \<open>random.choice(xs)\<close> with the random draw \<open>r\<close> made explicit. Every list it is
  applied to below is a non-empty constant.
\<close>

definition choice :: "nat \<Rightarrow> 'a list \<Rightarrow> 'a" where
  "choice r xs = xs ! (r mod length xs)"

definition payment_triggers :: "string list" where
  "payment_triggers = [''payment'', ''money'', ''transfer'', ''upi'', ''account'', ''refund'',
                       ''pin'', ''otp'', ''pay'']"

definition link_triggers :: "string list" where
  "link_triggers = [''click'', ''link'', ''download'', ''install'', ''website'']"

definition determine_strategy ::
  "nat \<Rightarrow> string \<Rightarrow> int \<Rightarrow> string list \<Rightarrow> session \<Rightarrow> string" where
  "determine_strategy r incoming_message message_count scam_indicators session_context =
     (let message_lower = lower incoming_message
      in if message_count \<le> 2 then
           (if any_in payment_triggers message_lower then ''request_payment_details''
            else if any_in [''urgent'', ''immediately'', ''block''] message_lower
            then choice r [''express_confusion'', ''play_along'']
            else choice r [''ask_for_details'', ''play_along''])
         else if message_count \<le> 5 then
           (if any_in [''verify'', ''confirm''] message_lower
            then choice r [''play_along'', ''request_verification'']
            else if any_in payment_triggers message_lower then ''request_payment_details''
            else if any_in link_triggers message_lower then ''play_along''
            else choice r [''play_along'', ''ask_for_details'', ''show_urgency''])
         else
           (if any_in payment_triggers message_lower then ''request_payment_details''
            else if any_in link_triggers message_lower then ''play_along''
            else choice r [''play_along'', ''show_urgency'', ''ask_for_details'']))"

text \<open>
  \<open>should_end_conversation\<close>. The loop over \<open>reversed(recent_messages)\<close> stops at the
  first message of the counterpart and keeps its lower-cased text.
\<close>

definition suspicious_phrases :: "string list" where
  "suspicious_phrases = [''you are wasting my time'', ''stop asking questions'', ''just do it'',
                         ''are you stupid'', ''why so many questions'',
                         ''this is your last chance'']"

fun last_scammer_loop :: "message list \<Rightarrow> string option" where
  "last_scammer_loop [] = None"
| "last_scammer_loop (msg # rest) =
     (if msg_sender msg = ''scammer'' then Some (lower (msg_text msg))
      else last_scammer_loop rest)"

definition should_end_conversation :: "session \<Rightarrow> message list \<Rightarrow> bool" where
  "should_end_conversation session recent_messages =
     (let message_count = length (messages session);
          intel = intelligence session
      in if message_count \<ge> 20 then True
         else
           (let has_payment_info =
                  (length (get_list intel ''upiIds'') > 0 \<or>
                   length (get_list intel ''bankAccounts'') > 0 \<or>
                   length (get_list intel ''phoneNumbers'') > 0 \<or>
                   length (get_list intel ''phishingLinks'') > 0);
                intel_types_count =
                  length (filter (\<lambda>key. length (get_list intel key) > 0)
                            [''upiIds'', ''bankAccounts'', ''phoneNumbers'', ''phishingLinks''])
            in if has_payment_info \<and> intel_types_count \<ge> 2 \<and> message_count \<ge> 12 then True
               else if recent_messages \<noteq> [] then
                 (case last_scammer_loop (rev recent_messages) of
                    None \<Rightarrow> False
                  | Some last_scammer_message \<Rightarrow>
                      if last_scammer_message \<noteq> []
                         \<and> any_in suspicious_phrases last_scammer_message
                      then True else False)
               else False))"

section \<open>Message handling and the session store\<close>

record request =
  req_sessionId :: string
  req_message :: message
  req_conversationHistory :: "message list"
  req_metadata :: "(string \<rightharpoonup> string) option"

record agent_response =
  resp_status :: string
  resp_reply :: string
  resp_scamDetected :: "bool option"
  resp_confidenceScore :: "rat option"

record final_result_payload =
  fin_sessionId :: string
  fin_scamDetected :: bool
  fin_totalMessagesExchanged :: nat
  fin_extractedIntelligence :: intel
  fin_agentNotes :: string

text \<open>
  What one call of \<open>handle_message\<close> takes from outside: the clock readings of
  \<open>datetime.utcnow()\<close> and the reply text of the agent (\<open>generate_response\<close> when the
  message is classified as a scam, \<open>generate_safe_response\<close> otherwise; both draw on
  \<open>random\<close> and possibly on a remote backend, and neither changes the session).
\<close>

record env =
  now_created :: string
  now_replied :: string
  agent_reply :: string

definition new_session :: "string \<Rightarrow> session" where
  "new_session now =
     \<lparr>messages = [], scam_detected = False, confidence_score = 0, intelligence = empty_intel,
      agent_notes = [], created_at = now\<rparr>"

text \<open>
  The loop \<open>for key in extracted_intel\<close>: a key of the session's dictionary is extended
  by the extracted list and replaced by \<open>list(set(...))\<close>.
\<close>

definition merge_intel :: "(string list \<Rightarrow> string list) \<Rightarrow> intel \<Rightarrow> intel \<Rightarrow> intel" where
  "merge_intel list_set current extracted_intel =
     (\<lambda>key. case extracted_intel key of
               None \<Rightarrow> current key
             | Some new \<Rightarrow> (case current key of
                             None \<Rightarrow> None
                           | Some cur \<Rightarrow> Some (list_set (cur @ new))))"

definition handle_message ::
  "(string list \<Rightarrow> string list) \<Rightarrow> env \<Rightarrow> request \<Rightarrow> sessions
     \<Rightarrow> agent_response \<times> final_result_payload option \<times> sessions" where
  "handle_message list_set e req store =
     (let session_id = req_sessionId req;
          incoming_message = req_message req;
          conversation_history = req_conversationHistory req;
          session = (case store session_id of
                       None \<Rightarrow> new_session (now_created e)
                     | Some s \<Rightarrow> s);
          session = session\<lparr>messages := messages session @ [incoming_message]\<rparr>;
          all_messages = conversation_history @ [incoming_message];
          scam_result = analyze (msg_text incoming_message) (map msg_text conversation_history)
                          (case req_metadata req of None \<Rightarrow> Map.empty | Some m \<Rightarrow> m);
          session = session\<lparr>scam_detected := is_scam scam_result,
                             confidence_score := confidence scam_result\<rparr>;
          extracted_intel = extract_intelligence list_set all_messages (msg_text incoming_message);
          session = session\<lparr>intelligence :=
                               merge_intel list_set (intelligence session) extracted_intel\<rparr>
      in if is_scam scam_result then
           (let session = (if cls_notes scam_result \<noteq> []
                           then session\<lparr>agent_notes := agent_notes session @ [cls_notes scam_result]\<rparr>
                           else session);
                session = session\<lparr>messages := messages session @
                            [\<lparr>msg_sender = ''user'', msg_text = agent_reply e,
                              msg_timestamp = now_replied e\<rparr>]\<rparr>;
                should_end = should_end_conversation session (last_n 5 all_messages);
                final_payload =
                  (if should_end
                   then Some \<lparr>fin_sessionId = session_id, fin_scamDetected = True,
                              fin_totalMessagesExchanged = length (messages session),
                              fin_extractedIntelligence = intelligence session,
                              fin_agentNotes =
                                (if agent_notes session \<noteq> []
                                 then join '' | '' (agent_notes session)
                                 else ''Scam engagement completed successfully'')\<rparr>
                   else None)
            in (\<lparr>resp_status = ''success'', resp_reply = agent_reply e,
                  resp_scamDetected = Some True,
                  resp_confidenceScore = Some (confidence scam_result)\<rparr>,
                final_payload, store(session_id \<mapsto> session)))
         else
           (\<lparr>resp_status = ''success'', resp_reply = agent_reply e,
              resp_scamDetected = Some False,
              resp_confidenceScore = Some (confidence scam_result)\<rparr>,
            None, store(session_id \<mapsto> session)))"

text \<open>A run of calls, each with its own outside readings; the store is threaded through.\<close>

fun handle_messages ::
  "(string list \<Rightarrow> string list) \<Rightarrow> (env \<times> request) list \<Rightarrow> sessions \<Rightarrow> sessions" where
  "handle_messages list_set [] store = store"
| "handle_messages list_set ((e, req) # calls) store =
     handle_messages list_set calls (snd (snd (handle_message list_set e req store)))"

text \<open>\<open>delete_session\<close>: the \<open>HTTPException\<close> it raises is the left value.\<close>

datatype http_exception = HTTPException nat string

record delete_response =
  del_status :: string
  del_message :: string

definition delete_session ::
  "string \<Rightarrow> sessions \<Rightarrow> (http_exception + delete_response) \<times> sessions" where
  "delete_session session_id store =
     (case store session_id of
        Some s \<Rightarrow>
          (Inr \<lparr>del_status = ''success'',
                del_message = ''Session '' @ session_id @ '' deleted''\<rparr>,
           store(session_id := None))
      | None \<Rightarrow> (Inl (HTTPException 404 ''Session not found''), store))"

section \<open>The rules as the specification words them\<close>

text \<open>
  The phone rule in the specification's words: strip the non-digits, require 10 to 15
  digits, then normalise by length and prefix. To be compared with \<open>phones_loop\<close>.
\<close>

definition normalize_phone_spec :: "string \<Rightarrow> string option" where
  "normalize_phone_spec candidate =
     (let digits = only_digits candidate; n = length digits
      in if 10 \<le> n \<and> n \<le> 15
         then Some (if n = 12 \<and> take 2 digits = ''91'' then ''+91'' @ last_n 10 digits
                    else if n = 11 \<and> take 1 digits = ''0'' then ''+91'' @ last_n 10 digits
                    else if n = 10 then ''+91'' @ digits
                    else ''+'' @ digits)
         else None)"

text \<open>The masking rule in the specification's words. To be compared with \<open>accounts_loop\<close>.\<close>

definition mask_account_spec :: "string \<Rightarrow> string option" where
  "mask_account_spec candidate =
     (let digits = only_digits candidate; n = length digits
      in if 9 \<le> n \<and> n \<le> 18
         then Some (if n > 8
                    then take 4 digits @ replicate (n - 8) (CHR ''*'') @ last_n 4 digits
                    else take 4 digits @ replicate (n - 4) (CHR ''*''))
         else None)"

text \<open>
  The termination rule in the specification's words: the hard cap, the sufficiency
  threshold, and the suspicion phrases in the text of the most recent message of the
  counterpart. \<open>prep\<close> is what is done to that text before the phrases are looked for:
  nothing in the specification's words, \<open>lower\<close> in the source. To be compared with
  \<open>should_end_conversation\<close>.
\<close>

definition four_keys :: "string list" where
  "four_keys = [''upiIds'', ''bankAccounts'', ''phoneNumbers'', ''phishingLinks'']"

definition counterpart_suspicious :: "(string \<Rightarrow> string) \<Rightarrow> message list \<Rightarrow> bool" where
  "counterpart_suspicious prep recent_messages =
     (case find (\<lambda>msg. msg_sender msg = ''scammer'') (rev recent_messages) of
        None \<Rightarrow> False
      | Some msg \<Rightarrow> any_in suspicious_phrases (prep (msg_text msg)))"

definition populated :: "session \<Rightarrow> nat" where
  "populated session =
     length (filter (\<lambda>key. get_list (intelligence session) key \<noteq> []) four_keys)"

definition end_rule :: "(string \<Rightarrow> string) \<Rightarrow> session \<Rightarrow> message list \<Rightarrow> bool" where
  "end_rule prep session recent_messages =
     (length (messages session) \<ge> 20
      \<or> (populated session \<ge> 2 \<and> length (messages session) \<ge> 12)
      \<or> counterpart_suspicious prep recent_messages)"

text \<open>Example data: one message of the counterpart, and a session of \<open>n\<close> messages with
  all four payment categories populated.\<close>

definition scammer_says :: "string \<Rightarrow> message" where
  "scammer_says t = \<lparr>msg_sender = ''scammer'', msg_text = t, msg_timestamp = []\<rparr>"

definition session_with :: "nat \<Rightarrow> session" where
  "session_with n =
     \<lparr>messages = replicate n (scammer_says ''hello''),
      scam_detected = True, confidence_score = 1,
      intelligence = [''bankAccounts'' \<mapsto> [''1234****9012''], ''upiIds'' \<mapsto> [''a@paytm''],
                      ''phishingLinks'' \<mapsto> [''http://x.com''],
                      ''phoneNumbers'' \<mapsto> [''+919876543210''],
                      ''suspiciousKeywords'' \<mapsto> []],
      agent_notes = [], created_at = []\<rparr>"


text \<open>
  The list a session holds under a key of its intelligence dictionary (empty while the
  session does not exist).
\<close>

definition session_intel :: "sessions \<Rightarrow> string \<Rightarrow> string \<Rightarrow> string list" where
  "session_intel store session_id key =
     (case store session_id of None \<Rightarrow> [] | Some s \<Rightarrow> get_list (intelligence s) key)"

text \<open>Example data: the five-message transcript of the repository's extraction test, a
  request of the counterpart without metadata, and outside readings for one call.\<close>

definition transcript :: "message list" where
  "transcript =
     [\<lparr>msg_sender = ''scammer'',
       msg_text = ''URGENT! Your bank account will be blocked in 2 hours.'',
       msg_timestamp = ''2026-01-30T21:00:00Z''\<rparr>,
      \<lparr>msg_sender = ''scammer'',
       msg_text = ''We are from State Bank security team. You need to verify your account immediately.'',
       msg_timestamp = ''2026-01-30T21:00:10Z''\<rparr>,
      \<lparr>msg_sender = ''scammer'',
       msg_text = ''Please provide your account number and registered mobile number for verification.'',
       msg_timestamp = ''2026-01-30T21:00:20Z''\<rparr>,
      \<lparr>msg_sender = ''scammer'',
       msg_text = ''Also share the OTP we just sent to your phone to confirm your identity.'',
       msg_timestamp = ''2026-01-30T21:00:30Z''\<rparr>,
      \<lparr>msg_sender = ''scammer'',
       msg_text = ''After verification, we need you to transfer Rs.1 to our security account: 1234567890@paytm'',
       msg_timestamp = ''2026-01-30T21:00:40Z''\<rparr>]"

definition transcript_latest :: string where
  "transcript_latest =
     ''After verification, we need you to transfer Rs.1 to our security account: 1234567890@paytm''"

definition request_of :: "string \<Rightarrow> string \<Rightarrow> message list \<Rightarrow> request" where
  "request_of session_id t history =
     \<lparr>req_sessionId = session_id, req_message = scammer_says t,
      req_conversationHistory = history, req_metadata = None\<rparr>"

definition env0 :: env where
  "env0 = \<lparr>now_created = ''t0'', now_replied = ''t1'', agent_reply = ''ok tell me more''\<rparr>"

section \<open>Validators\<close>

lemma startswith_take: "startswith s p = (take (length p) s = p)"
  by (induction s p rule: startswith.induct) auto

lemma format_phone_spec:
  "format_phone d =
     (if length d = 12 \<and> take 2 d = ''91'' then ''+91'' @ last_n 10 d
      else if length d = 11 \<and> take 1 d = ''0'' then ''+91'' @ last_n 10 d
      else if length d = 10 then ''+91'' @ d
      else ''+'' @ d)"
proof -
  have a: "startswith d ''91'' = (take 2 d = ''91'')"
    using startswith_take [of d "''91''"] by (simp add: numeral_2_eq_2)
  have b: "startswith d ''0'' = (take 1 d = ''0'')"
    using startswith_take [of d "''0''"] by simp
  show ?thesis by (auto simp: format_phone_def a b last_n_def)
qed

lemma phones_loop_spec:
  "phones_loop acc cands = acc @ List.map_filter normalize_phone_spec cands"
  by (induction cands arbitrary: acc)
     (simp_all add: map_filter_simps normalize_phone_spec_def Let_def format_phone_spec)

lemma accounts_loop_spec:
  "accounts_loop acc cands = acc @ List.map_filter mask_account_spec cands"
  by (induction cands arbitrary: acc)
     (simp_all add: map_filter_simps mask_account_spec_def mask_account_def Let_def)

text \<open>
  Claim C6. The phone validator emits, in order, the normal form of every candidate whose
  digits number 10 to 15, and nothing for the others: \<open>+91\<close> and the last ten digits for
  twelve digits starting with \<open>91\<close> and for eleven digits starting with \<open>0\<close>, \<open>+91\<close>
  and the digits for ten digits, \<open>+\<close> and the digits otherwise. \<open>9876543210\<close> and
  \<open>+919876543210\<close> both give \<open>+919876543210\<close>.
\<close>

theorem phones_normalized:
  "clean_and_validate_phones cands = List.map_filter normalize_phone_spec cands
   \<and> clean_and_validate_phones [''9876543210''] = [''+919876543210'']
   \<and> clean_and_validate_phones [''+919876543210''] = [''+919876543210'']"
proof -
  have "clean_and_validate_phones cands = List.map_filter normalize_phone_spec cands"
    by (simp add: clean_and_validate_phones_def phones_loop_spec)
  moreover have "clean_and_validate_phones [''9876543210''] = [''+919876543210'']"
    by code_simp
  moreover have "clean_and_validate_phones [''+919876543210''] = [''+919876543210'']"
    by code_simp
  ultimately show ?thesis by blast
qed

text \<open>
  Claim C7. The account validator emits, in order, the masked form of every candidate
  whose digits number 9 to 18, and nothing for the others: the first four digits, one
  \<open>*\<close> for each digit between, the last four digits. \<open>123456789012\<close> gives
  \<open>1234****9012\<close>.
\<close>

theorem accounts_masked:
  "clean_and_validate_accounts cands = List.map_filter mask_account_spec cands
   \<and> clean_and_validate_accounts [''123456789012''] = [''1234****9012'']"
proof -
  have "clean_and_validate_accounts cands = List.map_filter mask_account_spec cands"
    by (simp add: clean_and_validate_accounts_def accounts_loop_spec)
  moreover have "clean_and_validate_accounts [''123456789012''] = [''1234****9012'']"
    by code_simp
  ultimately show ?thesis by blast
qed

section \<open>Session deletion\<close>

text \<open>
  Claim C9. Deleting a session id that is not in the store raises the 404 exception and
  leaves the store as it was; deleting one that is in the store succeeds and removes
  exactly that entry.
\<close>

theorem delete_session_result:
  "(case store session_id of
      None \<Rightarrow> delete_session session_id store
               = (Inl (HTTPException 404 ''Session not found''), store)
    | Some s \<Rightarrow> delete_session session_id store
               = (Inr \<lparr>del_status = ''success'',
                        del_message = ''Session '' @ session_id @ '' deleted''\<rparr>,
                  store(session_id := None)))"
  by (simp add: delete_session_def split: option.splits)

theorem delete_session_result_witness:
  "delete_session ''b'' [''a'' \<mapsto> new_session ''t'']
     = (Inl (HTTPException 404 ''Session not found''), [''a'' \<mapsto> new_session ''t''])
   \<and> snd (delete_session ''a'' [''a'' \<mapsto> new_session ''t'']) = Map.empty"
  using delete_session_result [where store = "[''a'' \<mapsto> new_session ''t'']"
      and session_id = "''b''"]
    delete_session_result [where store = "[''a'' \<mapsto> new_session ''t'']"
      and session_id = "''a''"]
  by simp

section \<open>Strategy selection\<close>

lemma choice_in: "xs \<noteq> [] \<Longrightarrow> choice r xs \<in> set xs"
  by (simp add: choice_def)

text \<open>
  Claim C4, as stated, fails: at a message count of 3, a message with the payment keyword
  \<open>account\<close> and the word \<open>verify\<close> gets \<open>play_along\<close> or \<open>request_verification\<close>,
  whatever the random draw.
\<close>

theorem payment_not_always_first:
  "any_in payment_triggers (lower ''Please verify your account'')
   \<and> determine_strategy 0 ''Please verify your account'' 3 [] (new_session [])
       = ''play_along''
   \<and> determine_strategy 1 ''Please verify your account'' 3 [] (new_session [])
       = ''request_verification''"
  by code_simp

text \<open>
  Claim C4, amended. For a message whose lower-cased text contains a payment keyword,
  \<open>_determine_strategy\<close> returns \<open>request_payment_details\<close> at every message count up to
  2 and above 5, and at the counts 3 to 5 when the text contains neither \<open>verify\<close> nor
  \<open>confirm\<close>; at the counts 3 to 5 with \<open>verify\<close> or \<open>confirm\<close> it returns
  \<open>play_along\<close> or \<open>request_verification\<close>.
\<close>

theorem payment_keywords_strategy:
  "any_in payment_triggers (lower msg) \<Longrightarrow>
   (if 2 < message_count \<and> message_count \<le> 5 \<and> any_in [''verify'', ''confirm''] (lower msg)
    then determine_strategy r msg message_count inds ctx
           \<in> {''play_along'', ''request_verification''}
    else determine_strategy r msg message_count inds ctx = ''request_payment_details'')"
  using choice_in [of "[''play_along'', ''request_verification'']" r]
  by (auto simp: determine_strategy_def Let_def)

theorem payment_keywords_strategy_witness:
  "any_in payment_triggers (lower ''Send money now'')
   \<and> determine_strategy 7 ''Send money now'' 4 [''urgency_tactics''] (new_session [])
       = ''request_payment_details''"
proof -
  have h: "any_in payment_triggers (lower ''Send money now'')" by code_simp
  have n: "\<not> any_in [''verify'', ''confirm''] (lower ''Send money now'')" by code_simp
  show ?thesis
    using h n
      payment_keywords_strategy [OF h, where message_count = 4 and r = 7
        and inds = "[''urgency_tactics'']" and ctx = "new_session []"]
    by simp
qed

section \<open>Termination policy\<close>

lemma last_scammer_loop_find:
  "last_scammer_loop ms =
     map_option (\<lambda>msg. lower (msg_text msg)) (find (\<lambda>msg. msg_sender msg = ''scammer'') ms)"
  by (induction ms) auto

lemma no_phrase_in_empty: "\<not> any_in suspicious_phrases []"
  by (simp add: any_in_def suspicious_phrases_def)

lemma should_end_eq: "should_end_conversation session recent = end_rule lower session recent"
proof -
  have "recent = [] \<Longrightarrow> find (\<lambda>msg. msg_sender msg = ''scammer'') (rev recent) = None"
    by simp
  then show ?thesis
    using no_phrase_in_empty
    by (auto simp: should_end_conversation_def end_rule_def populated_def
          counterpart_suspicious_def Let_def four_keys_def last_scammer_loop_find
          split: option.splits)
qed

text \<open>
  Claim C3, as stated, fails: the source looks for the phrases in the lower-cased text. A
  fresh session whose counterpart writes \<open>JUST DO IT\<close> is ended, though the text does
  not contain any of the six phrases.
\<close>

theorem upper_case_phrase_ends:
  "should_end_conversation (new_session []) [scammer_says ''JUST DO IT'']
   \<and> \<not> end_rule (\<lambda>t. t) (new_session []) [scammer_says ''JUST DO IT'']"
  by code_simp

text \<open>
  Claim C3, amended. \<open>should_end_conversation\<close> is true if and only if the session has
  at least 20 messages, or at least two of the four payment categories are populated and
  it has at least 12 messages, or the lower-cased text of the most recent message of the
  counterpart in \<open>recent_messages\<close> contains one of the six phrases. So a session of 11
  messages without such a phrase is not ended, and a session of 12 messages with all
  four categories populated is.
\<close>

theorem should_end_conversation_rule:
  "should_end_conversation session recent = end_rule lower session recent
   \<and> (length (messages session) = 11 \<and> \<not> counterpart_suspicious lower recent
        \<longrightarrow> \<not> should_end_conversation session recent)
   \<and> (length (messages session) = 12 \<and> populated session = 4
        \<longrightarrow> should_end_conversation session recent)"
  by (simp add: should_end_eq end_rule_def)

theorem should_end_conversation_rule_witness:
  "populated (session_with 11) = 4
   \<and> \<not> should_end_conversation (session_with 11) [scammer_says ''hello'']
   \<and> should_end_conversation (session_with 12) [scammer_says ''hello'']"
proof -
  have a: "length (messages (session_with 11)) = 11" by (simp add: session_with_def)
  have b: "length (messages (session_with 12)) = 12" by (simp add: session_with_def)
  have c: "\<not> counterpart_suspicious lower [scammer_says ''hello'']" by code_simp
  have d: "populated (session_with 12) = 4" by code_simp
  have e: "populated (session_with 11) = 4" by code_simp
  show ?thesis
    using a b c d e
      should_end_conversation_rule [of "session_with 11" "[scammer_says ''hello'']"]
      should_end_conversation_rule [of "session_with 12" "[scammer_says ''hello'']"]
    by blast
qed

section \<open>Classification\<close>













section \<open>Extraction\<close>

lemma contextual_value:
  "extract_contextual_intelligence txt key =
     (if key = ''suspiciousKeywords'' then Some (contextual_tags (lower txt))
      else if key \<in> set intel_keys then Some [] else None)"
  by (simp add: extract_contextual_intelligence_def intel_keys_def)

lemma scanned_outside: "key \<notin> set intel_keys \<Longrightarrow> scanned_intelligence ls txt key = None"
  by (simp add: scanned_intelligence_def Let_def empty_intel_def intel_keys_def)

text \<open>What \<open>extract\<close> returns under each key: the override by the contextual dictionary
  leaves nothing of the scans.\<close>

lemma extract_value:
  "extract_intelligence ls conversation latest key =
     (if key = ''suspiciousKeywords''
      then Some (ls (contextual_tags (lower (all_text_of conversation latest))))
      else if key \<in> set intel_keys then Some (ls []) else None)"
  by (simp add: extract_intelligence_def Let_def map_add_def contextual_value scanned_outside)

lemma listing_set: "set_listing ls \<Longrightarrow> set (ls xs) = set xs"
  unfolding set_listing_def by blast

lemma listing_distinct: "set_listing ls \<Longrightarrow> distinct (ls xs)"
  unfolding set_listing_def by blast

lemma set_listing_remdups: "set_listing remdups"
  by (simp add: set_listing_def)

lemma set_listing_rev_remdups: "set_listing (\<lambda>xs. rev (remdups xs))"
  by (simp add: set_listing_def)

text \<open>
  Claim C1: the source does not do what the claim says. The UPI scan and its validator
  find \<open>1234567890@paytm\<close> in the latest message of the transcript, but
  \<open>intelligence.update(...)\<close> then replaces all five lists by those of the contextual
  pass, whose \<open>upiIds\<close> is empty: \<open>extract\<close> over the transcript returns no UPI id.
\<close>

theorem extract_drops_upi:
  "clean_and_validate_upi (findall pat_upi transcript_latest) = [''1234567890@paytm'']
   \<and> extract_intelligence remdups transcript transcript_latest ''upiIds'' = Some []"
proof -
  have "clean_and_validate_upi (findall pat_upi transcript_latest) = [''1234567890@paytm'']"
    by code_simp
  moreover have "extract_intelligence remdups transcript transcript_latest ''upiIds'' = Some []"
    by (simp add: extract_value intel_keys_def)
  ultimately show ?thesis by blast
qed

text \<open>
  Claim C8. Two calls of \<open>extract\<close> on the same conversation and latest message return,
  under every key, lists with the same elements, whatever order each call's
  \<open>list(set(...))\<close> enumerates them in. (The inputs are values of the model: nothing
  is written to them.)
\<close>

theorem extract_order_independent:
  "set_listing ls1 \<Longrightarrow> set_listing ls2 \<Longrightarrow>
   map_option set (extract_intelligence ls1 conversation latest key)
     = map_option set (extract_intelligence ls2 conversation latest key)"
  by (simp add: extract_value listing_set)

theorem extract_order_independent_witness:
  "map_option set (extract_intelligence remdups transcript transcript_latest
                     ''suspiciousKeywords'')
     = map_option set (extract_intelligence (\<lambda>xs. rev (remdups xs)) transcript
                         transcript_latest ''suspiciousKeywords'')"
  using extract_order_independent [OF set_listing_remdups set_listing_rev_remdups]
  by blast

section \<open>Message handling\<close>

lemma merge_superset:
  "set_listing ls \<Longrightarrow> set (get_list cur key) \<subseteq> set (get_list (merge_intel ls cur ext) key)"
  by (auto simp: merge_intel_def get_list_def listing_set split: option.splits)

lemma merge_distinct:
  "set_listing ls \<Longrightarrow> key \<in> set intel_keys \<Longrightarrow>
   distinct (get_list (merge_intel ls cur (extract_intelligence ls conversation latest)) key)"
  by (auto simp: merge_intel_def get_list_def extract_value listing_distinct split: option.splits)

text \<open>The session a call leaves under its id, and the other entries of the store.\<close>

lemma handle_message_self:
  "(case snd (snd (handle_message ls e req store)) (req_sessionId req) of
      None \<Rightarrow> False
    | Some s' \<Rightarrow>
        intelligence s' =
          merge_intel ls
            (intelligence (case store (req_sessionId req) of
                             None \<Rightarrow> new_session (now_created e) | Some s \<Rightarrow> s))
            (extract_intelligence ls (req_conversationHistory req @ [req_message req])
               (msg_text (req_message req)))
        \<and> scam_detected s' =
            is_scam (analyze (msg_text (req_message req))
                       (map msg_text (req_conversationHistory req))
                       (case req_metadata req of None \<Rightarrow> Map.empty | Some m \<Rightarrow> m))
        \<and> confidence_score s' =
            confidence (analyze (msg_text (req_message req))
                          (map msg_text (req_conversationHistory req))
                          (case req_metadata req of None \<Rightarrow> Map.empty | Some m \<Rightarrow> m)))"
  by (simp add: handle_message_def Let_def)

lemma handle_message_other:
  "k \<noteq> req_sessionId req \<Longrightarrow> snd (snd (handle_message ls e req store)) k = store k"
  by (simp add: handle_message_def Let_def)

lemma step_superset:
  assumes "set_listing ls"
  shows "set (session_intel store sid key)
           \<subseteq> set (session_intel (snd (snd (handle_message ls e req store))) sid key)"
proof (cases "sid = req_sessionId req")
  case False
  then show ?thesis by (simp add: handle_message_other session_intel_def)
next
  case True
  show ?thesis
  proof (cases "store sid")
    case None
    then show ?thesis by (simp add: session_intel_def)
  next
    case (Some s)
    then show ?thesis
      using handle_message_self [where ls = ls and e = e and req = req and store = store]
        merge_superset [OF assms] True
      by (auto simp: session_intel_def split: option.splits)
  qed
qed

lemma step_distinct:
  assumes "set_listing ls" "key \<in> set intel_keys"
  shows "distinct (session_intel (snd (snd (handle_message ls e req store)))
                     (req_sessionId req) key)"
  using handle_message_self [where ls = ls and e = e and req = req and store = store]
    merge_distinct [OF assms]
  by (auto simp: session_intel_def split: option.splits)

lemma run_superset:
  "set_listing ls \<Longrightarrow>
   set (session_intel store sid key)
     \<subseteq> set (session_intel (handle_messages ls calls store) sid key)"
proof (induction calls arbitrary: store)
  case Nil
  then show ?case by simp
next
  case (Cons c calls)
  obtain e req where c: "c = (e, req)" by (cases c)
  have "set (session_intel store sid key)
          \<subseteq> set (session_intel (snd (snd (handle_message ls e req store))) sid key)"
    using Cons.prems by (rule step_superset)
  also have "\<dots> \<subseteq> set (session_intel
                       (handle_messages ls calls (snd (snd (handle_message ls e req store))))
                       sid key)"
    using Cons.prems by (rule Cons.IH)
  finally show ?case by (simp add: c)
qed

lemma handle_messages_append:
  "handle_messages ls (xs @ ys) store = handle_messages ls ys (handle_messages ls xs store)"
  by (induction xs arbitrary: store) auto

text \<open>
  Claim C5. Over any run of \<open>handle_message\<close> calls, for every session id and every key,
  the list the session holds after the run contains every element it held before; and
  after each call, each of the five lists of the session the call was for is free of
  duplicates.
\<close>

theorem session_intelligence_grows:
  "set_listing ls \<Longrightarrow>
   set (session_intel store sid key)
     \<subseteq> set (session_intel (handle_messages ls calls store) sid key)
   \<and> (key \<in> set intel_keys \<longrightarrow>
        distinct (session_intel (snd (snd (handle_message ls e req store)))
                    (req_sessionId req) key))"
  by (simp add: run_superset step_distinct)

text \<open>A tag recorded by the first call is still held after a second call that finds none.\<close>

theorem session_intelligence_grows_witness:
  "''uses_paytm'' \<in> set (session_intel
       (handle_messages remdups [(env0, request_of ''s1'' ''pay to abc@paytm'' [])] Map.empty)
       ''s1'' ''suspiciousKeywords'')
   \<and> ''uses_paytm'' \<in> set (session_intel
       (handle_messages remdups
          [(env0, request_of ''s1'' ''pay to abc@paytm'' []),
           (env0, request_of ''s1'' ''hello'' [scammer_says ''pay to abc@paytm''])] Map.empty)
       ''s1'' ''suspiciousKeywords'')
   \<and> distinct (session_intel
       (snd (snd (handle_message remdups env0 (request_of ''s1'' ''hello'' []) Map.empty)))
       ''s1'' ''suspiciousKeywords'')"
proof -
  let ?c1 = "(env0, request_of ''s1'' ''pay to abc@paytm'' [])"
  let ?c2 = "(env0, request_of ''s1'' ''hello'' [scammer_says ''pay to abc@paytm''])"
  have first: "''uses_paytm'' \<in> set (session_intel
       (handle_messages remdups [?c1] Map.empty) ''s1'' ''suspiciousKeywords'')"
    by code_simp
  have key: "''suspiciousKeywords'' \<in> set intel_keys"
    by (simp add: intel_keys_def)
  have id: "req_sessionId (request_of ''s1'' ''hello'' []) = ''s1''"
    by (simp add: request_of_def)
  have grow: "set (session_intel (handle_messages remdups [?c1] Map.empty)
                     ''s1'' ''suspiciousKeywords'')
                \<subseteq> set (session_intel
                         (handle_messages remdups [?c2]
                            (handle_messages remdups [?c1] Map.empty))
                         ''s1'' ''suspiciousKeywords'')"
    and dist: "distinct (session_intel
       (snd (snd (handle_message remdups env0 (request_of ''s1'' ''hello'' []) Map.empty)))
       (req_sessionId (request_of ''s1'' ''hello'' [])) ''suspiciousKeywords'')"
    using session_intelligence_grows [OF set_listing_remdups,
        where store = "handle_messages remdups [?c1] Map.empty" and sid = "''s1''"
          and key = "''suspiciousKeywords''" and calls = "[?c2]"]
      session_intelligence_grows [OF set_listing_remdups,
        where store = Map.empty and key = "''suspiciousKeywords''" and e = env0
          and req = "request_of ''s1'' ''hello'' []"] key
    by blast+
  have two: "handle_messages remdups [?c1, ?c2] Map.empty
               = handle_messages remdups [?c2] (handle_messages remdups [?c1] Map.empty)"
    using handle_messages_append [of remdups "[?c1]" "[?c2]" Map.empty] by simp
  show ?thesis
    using first grow dist unfolding two id by blast
qed

text \<open>
  Claim C10. After a call of \<open>handle_message\<close> the session's \<open>scam_detected\<close> and
  \<open>confidence_score\<close> are those of the classification of that call's message (with
  the history and metadata of the request). A session whose first message is classified
  as a scam and whose second is not has \<open>scam_detected\<close> true after the first call and
  false after the second.
\<close>

theorem scam_detected_overwritten:
  "(case snd (snd (handle_message ls e req store)) (req_sessionId req) of
      None \<Rightarrow> False
    | Some s \<Rightarrow>
        scam_detected s =
          is_scam (analyze (msg_text (req_message req))
                     (map msg_text (req_conversationHistory req))
                     (case req_metadata req of None \<Rightarrow> Map.empty | Some m \<Rightarrow> m))
        \<and> confidence_score s =
            confidence (analyze (msg_text (req_message req))
                          (map msg_text (req_conversationHistory req))
                          (case req_metadata req of None \<Rightarrow> Map.empty | Some m \<Rightarrow> m)))
   \<and> (case handle_messages ls [(e1, request_of ''s1'' ''Share your OTP now'' [])] Map.empty
             ''s1'' of
        None \<Rightarrow> False | Some s \<Rightarrow> scam_detected s)
   \<and> (case handle_messages ls
             [(e1, request_of ''s1'' ''Share your OTP now'' []),
              (e2, request_of ''s1'' ''Thanks!'' [scammer_says ''Share your OTP now''])]
             Map.empty ''s1'' of
        None \<Rightarrow> False | Some s \<Rightarrow> \<not> scam_detected s)"
proof -
  let ?r1 = "request_of ''s1'' ''Share your OTP now'' []"
  let ?r2 = "request_of ''s1'' ''Thanks!'' [scammer_says ''Share your OTP now'']"
  have a1: "is_scam (analyze ''Share your OTP now'' [] Map.empty)"
    by code_simp
  have a2: "\<not> is_scam (analyze ''Thanks!'' [''Share your OTP now''] Map.empty)"
    by code_simp
  have general: "case snd (snd (handle_message ls e req store)) (req_sessionId req) of
      None \<Rightarrow> False
    | Some s \<Rightarrow>
        scam_detected s =
          is_scam (analyze (msg_text (req_message req))
                     (map msg_text (req_conversationHistory req))
                     (case req_metadata req of None \<Rightarrow> Map.empty | Some m \<Rightarrow> m))
        \<and> confidence_score s =
            confidence (analyze (msg_text (req_message req))
                          (map msg_text (req_conversationHistory req))
                          (case req_metadata req of None \<Rightarrow> Map.empty | Some m \<Rightarrow> m))"
    for e req store
    using handle_message_self [where ls = ls and e = e and req = req and store = store]
    by (auto split: option.splits)
  have one: "case handle_messages ls [(e1, ?r1)] Map.empty ''s1'' of
               None \<Rightarrow> False | Some s \<Rightarrow> scam_detected s"
    using general [where e = e1 and req = ?r1 and store = Map.empty] a1
    by (auto simp: request_of_def scammer_says_def split: option.splits)
  have two: "case handle_messages ls [(e1, ?r1), (e2, ?r2)] Map.empty ''s1'' of
               None \<Rightarrow> False | Some s \<Rightarrow> \<not> scam_detected s"
    using general [where e = e2 and req = ?r2
        and store = "snd (snd (handle_message ls e1 ?r1 Map.empty))"] a2
    by (auto simp: request_of_def scammer_says_def split: option.splits)
  show ?thesis
    using general [where e = e and req = req and store = store] one two by blast
qed

end
